theory Spec2Isabelle
  imports Complex_Main
begin

section \<open>Numbers of the program\<close>

text \<open>
  The C++ type \<^verbatim>\<open>double\<close>. A value is a finite number, one of the two infinities, or
  not-a-number. Finite arithmetic is exact here: rounding to 53 bits, overflow to an
  infinity and the sign of zero are not modelled (a zero divisor counts as \<open>+0\<close>, as the
  difference of two equal numbers is). The special values follow IEEE 754, so that a
  division by zero gives an infinity or not-a-number, never a number.
\<close>

datatype double = Finite real | PInf | NInf | NaN

fun inf_of :: "real \<Rightarrow> double" where
  "inf_of s = (if s = 0 then NaN else if 0 < s then PInf else NInf)"

fun dsign :: "double \<Rightarrow> real" where
  "dsign (Finite r) = sgn r"
| "dsign PInf = 1"
| "dsign NInf = -1"
| "dsign NaN = 0"

fun dneg :: "double \<Rightarrow> double" where
  "dneg (Finite r) = Finite (- r)"
| "dneg PInf = NInf"
| "dneg NInf = PInf"
| "dneg NaN = NaN"

fun dadd :: "double \<Rightarrow> double \<Rightarrow> double" where
  "dadd (Finite a) (Finite b) = Finite (a + b)"
| "dadd NaN _ = NaN"
| "dadd _ NaN = NaN"
| "dadd PInf NInf = NaN"
| "dadd NInf PInf = NaN"
| "dadd PInf _ = PInf"
| "dadd _ PInf = PInf"
| "dadd NInf _ = NInf"
| "dadd _ NInf = NInf"

definition dsub :: "double \<Rightarrow> double \<Rightarrow> double" where
  "dsub a b = dadd a (dneg b)"

fun dmul :: "double \<Rightarrow> double \<Rightarrow> double" where
  "dmul (Finite a) (Finite b) = Finite (a * b)"
| "dmul NaN _ = NaN"
| "dmul _ NaN = NaN"
| "dmul a b = inf_of (dsign a * dsign b)"

fun ddiv :: "double \<Rightarrow> double \<Rightarrow> double" where
  "ddiv (Finite a) (Finite b) = (if b = 0 then inf_of (sgn a) else Finite (a / b))"
| "ddiv NaN _ = NaN"
| "ddiv _ NaN = NaN"
| "ddiv (Finite a) _ = Finite 0"
| "ddiv PInf (Finite b) = (if b < 0 then NInf else PInf)"
| "ddiv NInf (Finite b) = (if b < 0 then PInf else NInf)"
| "ddiv _ _ = NaN"

text \<open>Comparisons: every comparison with not-a-number is false.\<close>

fun dless :: "double \<Rightarrow> double \<Rightarrow> bool" where
  "dless (Finite a) (Finite b) = (a < b)"
| "dless NaN _ = False"
| "dless _ NaN = False"
| "dless _ NInf = False"
| "dless PInf _ = False"
| "dless _ _ = True"

definition dgreater :: "double \<Rightarrow> double \<Rightarrow> bool" where
  "dgreater a b = dless b a"

fun deq :: "double \<Rightarrow> double \<Rightarrow> bool" where
  "deq NaN _ = False"
| "deq _ NaN = False"
| "deq a b = (a = b)"


text \<open>\<^verbatim>\<open>std::min(a, b)\<close> is \<^verbatim>\<open>(b < a) ? b : a\<close> and \<^verbatim>\<open>std::max(a, b)\<close> is
  \<^verbatim>\<open>(a < b) ? b : a\<close>.\<close>

definition std_min :: "double \<Rightarrow> double \<Rightarrow> double" where
  "std_min a b = (if dless b a then b else a)"

definition std_max :: "double \<Rightarrow> double \<Rightarrow> double" where
  "std_max a b = (if dless a b then b else a)"

definition of_int_d :: "int \<Rightarrow> double" where
  "of_int_d i = Finite (of_int i)"

definition of_size_d :: "nat \<Rightarrow> double" where
  "of_size_d n = Finite (of_nat n)"

text \<open>
  The cast \<^verbatim>\<open>(int)d\<close> truncates toward zero. The type \<^verbatim>\<open>int\<close> has 32 bits; the cast of
  a value whose truncation does not fit, of an infinity or of not-a-number is undefined
  behaviour, which is the result \<open>None\<close>.
\<close>

definition INT_MIN :: int where "INT_MIN = - 2147483648"
definition INT_MAX :: int where "INT_MAX = 2147483647"

definition trunc :: "real \<Rightarrow> int" where
  "trunc r = (if 0 \<le> r then \<lfloor>r\<rfloor> else \<lceil>r\<rceil>)"

fun double_to_int :: "double \<Rightarrow> int option" where
  "double_to_int (Finite r) =
     (if INT_MIN \<le> trunc r \<and> trunc r \<le> INT_MAX then Some (trunc r) else None)"
| "double_to_int _ = None"

section \<open>Library functions on strings\<close>

text \<open>\<^verbatim>\<open>std::to_string(int)\<close>: the decimal digits, with a minus sign before a negative number.\<close>

definition digit_char :: "nat \<Rightarrow> char" where
  "digit_char n = ''0123456789'' ! (n mod 10)"

fun dec_digits :: "nat \<Rightarrow> string" where
  "dec_digits n = (if n < 10 then [digit_char n] else dec_digits (n div 10) @ [digit_char n])"

declare dec_digits.simps [simp del]

definition to_string_int :: "int \<Rightarrow> string" where
  "to_string_int i = (if i < 0 then CHR ''-'' # dec_digits (nat (- i)) else dec_digits (nat i))"

text \<open>
  \<^verbatim>\<open>std::to_string(double)\<close> prints as \<^verbatim>\<open>printf("%f")\<close> does: six digits after the point,
  the value rounded to the nearest, a tie to the even digit.
\<close>

definition round_half_even :: "real \<Rightarrow> int" where
  "round_half_even x =
     (let f = \<lfloor>x\<rfloor>; d = x - of_int f
      in if d < 1 / 2 then f else if 1 / 2 < d then f + 1 else if even f then f else f + 1)"

definition pad6 :: "string \<Rightarrow> string" where
  "pad6 s = replicate (6 - length s) CHR ''0'' @ s"

fun to_string_double :: "double \<Rightarrow> string" where
  "to_string_double (Finite r) =
     (let m = nat (round_half_even (\<bar>r\<bar> * 1000000))
      in (if r < 0 then ''-'' else '''') @ dec_digits (m div 1000000) @ ''.'' @
         pad6 (dec_digits (m mod 1000000)))"
| "to_string_double PInf = ''inf''"
| "to_string_double NInf = ''-inf''"
| "to_string_double NaN = ''nan''"

text \<open>
  \<^verbatim>\<open>std::stod(str)\<close> of the C++ standard library, which calls \<^verbatim>\<open>strtod\<close>: leading white
  space is skipped, then an optional sign, then the longest prefix that is a decimal number
  (digits with an optional point and an optional exponent), a hexadecimal number
  (\<^verbatim>\<open>0x\<close>, hexadecimal digits, optional binary exponent), an infinity (\<^verbatim>\<open>inf\<close>, any case) or
  a not-a-number (\<^verbatim>\<open>nan\<close>, any case) is converted, and what follows the prefix is ignored.
  It throws \<^verbatim>\<open>invalid_argument\<close> when there is no such prefix and \<^verbatim>\<open>out_of_range\<close> when the
  number exceeds the largest double. Whether a number too small for a double is an error is
  left to the implementation by the C standard; it is no error here.
\<close>

datatype stod_error = invalid_argument | out_of_range

definition isspace :: "char \<Rightarrow> bool" where
  "isspace c = (c \<in> set [CHR '' '', CHR 0x09, CHR 0x0A, CHR 0x0B, CHR 0x0C, CHR 0x0D])"

definition tolower :: "char \<Rightarrow> char" where
  "tolower c =
     (case map_of (zip ''ABCDEFGHIJKLMNOPQRSTUVWXYZ'' ''abcdefghijklmnopqrstuvwxyz'') c of
        Some l \<Rightarrow> l
      | None \<Rightarrow> c)"

definition digit_of :: "char \<Rightarrow> nat" where
  "digit_of c = length (takeWhile (\<lambda>d. d \<noteq> tolower c) ''0123456789abcdef'')"

definition isdigit :: "char \<Rightarrow> bool" where
  "isdigit c = (c \<in> set ''0123456789'')"

definition isxdigit :: "char \<Rightarrow> bool" where
  "isxdigit c = (digit_of c < 16)"

definition digits_val :: "nat \<Rightarrow> string \<Rightarrow> nat" where
  "digits_val base ds = foldl (\<lambda>a c. base * a + digit_of c) 0 ds"

definition pow_int :: "real \<Rightarrow> int \<Rightarrow> real" where
  "pow_int b e = (if 0 \<le> e then b ^ nat e else 1 / b ^ nat (- e))"

definition parse_exponent :: "string \<Rightarrow> string \<Rightarrow> int" where
  "parse_exponent marks s =
     (case s of
        [] \<Rightarrow> 0
      | c # r \<Rightarrow>
          if c \<in> set marks then
            (let neg = (case r of [] \<Rightarrow> False | d # _ \<Rightarrow> d = CHR ''-'');
                 r' = (case r of [] \<Rightarrow> r | d # r2 \<Rightarrow> if d = CHR ''-'' \<or> d = CHR ''+'' then r2 else r);
                 ds = takeWhile isdigit r'
             in if ds = [] then 0
                else if neg then - int (digits_val 10 ds) else int (digits_val 10 ds))
          else 0)"

definition parse_mantissa ::
  "(char \<Rightarrow> bool) \<Rightarrow> nat \<Rightarrow> string \<Rightarrow> (real \<times> string) option" where
  "parse_mantissa isd base s =
     (let ip = takeWhile isd s;
          r1 = dropWhile isd s;
          fp = (case r1 of [] \<Rightarrow> [] | c # r \<Rightarrow> if c = CHR ''.'' then takeWhile isd r else []);
          r2 = (case r1 of [] \<Rightarrow> [] | c # r \<Rightarrow> if c = CHR ''.'' then dropWhile isd r else r1)
      in if ip = [] \<and> fp = [] then None
         else Some (of_nat (digits_val base (ip @ fp)) / of_nat base ^ length fp, r2))"

definition parse_decimal :: "string \<Rightarrow> real option" where
  "parse_decimal s =
     (case parse_mantissa isdigit 10 s of
        None \<Rightarrow> None
      | Some (m, r) \<Rightarrow> Some (m * pow_int 10 (parse_exponent ''eE'' r)))"

definition parse_hex :: "string \<Rightarrow> real option" where
  "parse_hex s =
     (if map tolower (take 2 s) = ''0x'' then
        (case parse_mantissa isxdigit 16 (drop 2 s) of
           None \<Rightarrow> None
         | Some (m, r) \<Rightarrow> Some (m * pow_int 2 (parse_exponent ''pP'' r)))
      else None)"

definition DBL_MAX :: real where
  "DBL_MAX = 2 ^ 1024 - 2 ^ 971"

definition stod :: "string \<Rightarrow> stod_error + double" where
  "stod str =
     (let s = dropWhile isspace str;
          neg = (case s of [] \<Rightarrow> False | c # _ \<Rightarrow> c = CHR ''-'');
          b = (case s of [] \<Rightarrow> s | c # r \<Rightarrow> if c = CHR ''-'' \<or> c = CHR ''+'' then r else s)
      in if map tolower (take 3 b) = ''inf'' then Inr (if neg then NInf else PInf)
         else if map tolower (take 3 b) = ''nan'' then Inr NaN
         else (case (case parse_hex b of Some v \<Rightarrow> Some v | None \<Rightarrow> parse_decimal b) of
                 None \<Rightarrow> Inl invalid_argument
               | Some v \<Rightarrow>
                   if DBL_MAX < v then Inl out_of_range
                   else Inr (Finite (if neg then - v else v))))"

text \<open>
  \<^verbatim>\<open>std::getline(ss, item, delim)\<close> on a string stream, the stream being the characters not
  read yet: at the end of the stream it fails (\<open>None\<close>); otherwise the item is what stands
  before the next delimiter, and the delimiter is consumed.
\<close>

definition getline :: "string \<Rightarrow> char \<Rightarrow> (string \<times> string) option" where
  "getline ss delim =
     (if ss = [] then None
      else Some (takeWhile (\<lambda>c. c \<noteq> delim) ss, drop 1 (dropWhile (\<lambda>c. c \<noteq> delim) ss)))"

text \<open>\<^verbatim>\<open>std::string::find(c)\<close>: the first position of the character, \<open>None\<close> for \<^verbatim>\<open>npos\<close>.\<close>

definition find_char :: "string \<Rightarrow> char \<Rightarrow> nat option" where
  "find_char s c = (if c \<in> set s then Some (length (takeWhile (\<lambda>d. d \<noteq> c) s)) else None)"

text \<open>\<^verbatim>\<open>s.substr(pos, n)\<close> and \<^verbatim>\<open>s.substr(pos)\<close>, for a position within the string.\<close>

definition substr :: "string \<Rightarrow> nat \<Rightarrow> nat \<Rightarrow> string" where
  "substr s pos n = take n (drop pos s)"

definition substr_from :: "string \<Rightarrow> nat \<Rightarrow> string" where
  "substr_from s pos = drop pos s"

section \<open>The value parser\<close>

record Point =
  px :: double
  py :: double

text \<open>\<^verbatim>\<open>parseCSV\<close>: the \<^verbatim>\<open>while (std::getline(ss, item, ','))\<close> loop; an item that
  \<^verbatim>\<open>std::stod\<close> rejects is skipped by the \<^verbatim>\<open>catch (...)\<close>.\<close>

function parseCSV_loop :: "string \<Rightarrow> double list \<Rightarrow> double list" where
  "parseCSV_loop ss values =
     (case getline ss CHR '','' of
        None \<Rightarrow> values
      | Some (item, ss') \<Rightarrow>
          parseCSV_loop ss' (case stod item of Inr v \<Rightarrow> values @ [v] | Inl _ \<Rightarrow> values))"
  by pat_completeness auto
termination
  apply (relation "measure (\<lambda>(ss, values). length ss)")
   apply (auto simp: getline_def split: if_splits)
  subgoal for ss
    using length_dropWhile_le [of "\<lambda>c. c \<noteq> CHR '',''" ss] by (cases ss) auto
  done

declare parseCSV_loop.simps [simp del]

definition parseCSV :: "string \<Rightarrow> double list" where
  "parseCSV str = parseCSV_loop str []"

text \<open>\<^verbatim>\<open>parsePoints\<close>: a pair without a colon is skipped by the \<^verbatim>\<open>if\<close>, a pair with a half
  that \<^verbatim>\<open>std::stod\<close> rejects by the \<^verbatim>\<open>catch (...)\<close>.\<close>

definition parse_pair :: "string \<Rightarrow> Point option" where
  "parse_pair pair =
     (case find_char pair CHR '':'' of
        None \<Rightarrow> None
      | Some colon \<Rightarrow>
          (case stod (substr pair 0 colon) of
             Inl _ \<Rightarrow> None
           | Inr x \<Rightarrow>
               (case stod (substr_from pair (colon + 1)) of
                  Inl _ \<Rightarrow> None
                | Inr y \<Rightarrow> Some \<lparr>px = x, py = y\<rparr>)))"

function parsePoints_loop :: "string \<Rightarrow> Point list \<Rightarrow> Point list" where
  "parsePoints_loop ss points =
     (case getline ss CHR '','' of
        None \<Rightarrow> points
      | Some (pair, ss') \<Rightarrow>
          parsePoints_loop ss' (case parse_pair pair of Some p \<Rightarrow> points @ [p] | None \<Rightarrow> points))"
  by pat_completeness auto
termination
  apply (relation "measure (\<lambda>(ss, points). length ss)")
   apply (auto simp: getline_def split: if_splits)
  subgoal for ss
    using length_dropWhile_le [of "\<lambda>c. c \<noteq> CHR '',''" ss] by (cases ss) auto
  done

declare parsePoints_loop.simps [simp del]

definition parsePoints :: "string \<Rightarrow> Point list" where
  "parsePoints str = parsePoints_loop str []"

section \<open>The chart renderer\<close>

text \<open>The type \<^verbatim>\<open>int\<close> of the configuration: its values are the constants below, and the
  arithmetic on them stays far from the 32-bit bounds. The C++ division of integers
  truncates toward zero.\<close>

definition int_div :: "int \<Rightarrow> int \<Rightarrow> int" where
  "int_div a b = sgn a * sgn b * (\<bar>a\<bar> div \<bar>b\<bar>)"

record GraphConfig =
  width :: int
  height :: int
  padding :: int
  title :: string
  xlabel :: string
  ylabel :: string
  color :: string
  bgColor :: string
  showGrid :: bool
  showLegend :: bool

definition GraphConfig_default :: GraphConfig where
  "GraphConfig_default =
     \<lparr>width = 800, height = 600, padding = 60, title = ''Graph'', xlabel = ''X'',
      ylabel = ''Y'', color = ''#2563eb'', bgColor = ''#ffffff'', showGrid = True,
      showLegend = True\<rparr>"

text \<open>
  The class \<^verbatim>\<open>SVGGraph\<close>. The constructor leaves the four bounds unset; every chart method
  assigns all four before it reads one, so their first value (not-a-number here) is never
  seen.
\<close>

record SVGGraph =
  svg :: string
  config :: GraphConfig
  minX :: double
  maxX :: double
  minY :: double
  maxY :: double

definition SVGGraph_new :: "GraphConfig \<Rightarrow> SVGGraph" where
  "SVGGraph_new cfg = \<lparr>svg = [], config = cfg, minX = NaN, maxX = NaN, minY = NaN, maxY = NaN\<rparr>"

text \<open>\<^verbatim>\<open>svg += s\<close>.\<close>

definition emit :: "string \<Rightarrow> SVGGraph \<Rightarrow> SVGGraph" where
  "emit s g = g\<lparr>svg := svg g @ s\<rparr>"

definition init :: "SVGGraph \<Rightarrow> SVGGraph" where
  \<open>init g =
     emit (''<rect width="100%" height="100%" fill="'' @ bgColor (config g) @ ''"/>\<newline>'')
       (emit (''<svg xmlns="http://www.w3.org/2000/svg" width="'' @
              to_string_int (width (config g)) @ ''" height="'' @
              to_string_int (height (config g)) @ ''">\<newline>'')
          (g\<lparr>svg := ''<?xml version="1.0" encoding="UTF-8"?>\<newline>''\<rparr>))\<close>

definition grid_vertical :: "GraphConfig \<Rightarrow> int \<Rightarrow> string" where
  \<open>grid_vertical cfg i =
     (let chartWidth = width cfg - 2 * padding cfg;
          x = padding cfg + int_div (chartWidth * i) 10
      in ''<line x1="'' @ to_string_int x @ ''" y1="'' @ to_string_int (padding cfg) @
         ''" x2="'' @ to_string_int x @ ''" y2="'' @
         to_string_int (height cfg - padding cfg) @ ''"/>\<newline>'')\<close>

definition grid_horizontal :: "GraphConfig \<Rightarrow> int \<Rightarrow> string" where
  \<open>grid_horizontal cfg i =
     (let chartHeight = height cfg - 2 * padding cfg;
          y = padding cfg + int_div (chartHeight * i) 10
      in ''<line x1="'' @ to_string_int (padding cfg) @ ''" y1="'' @ to_string_int y @
         ''" x2="'' @ to_string_int (width cfg - padding cfg) @ ''" y2="'' @
         to_string_int y @ ''"/>\<newline>'')\<close>

definition drawGrid :: "SVGGraph \<Rightarrow> SVGGraph" where
  \<open>drawGrid g =
     (if \<not> showGrid (config g) then g
      else
        emit ''</g>\<newline>''
          (foldl (\<lambda>h i. emit (grid_horizontal (config g) i) h)
             (foldl (\<lambda>h i. emit (grid_vertical (config g) i) h)
                (emit ''<g id="grid" stroke="#e5e7eb" stroke-width="1">\<newline>'' g)
                [0..10])
             [0..10]))\<close>

definition drawAxes :: "SVGGraph \<Rightarrow> SVGGraph" where
  \<open>drawAxes g =
     (let cfg = config g
      in emit ''</g>\<newline>''
           (emit (''<line x1="'' @ to_string_int (padding cfg) @
                  ''" y1="'' @ to_string_int (padding cfg) @
                  ''" x2="'' @ to_string_int (padding cfg) @
                  ''" y2="'' @ to_string_int (height cfg - padding cfg) @ ''"/>\<newline>'')
              (emit (''<line x1="'' @ to_string_int (padding cfg) @
                     ''" y1="'' @ to_string_int (height cfg - padding cfg) @
                     ''" x2="'' @ to_string_int (width cfg - padding cfg) @
                     ''" y2="'' @ to_string_int (height cfg - padding cfg) @ ''"/>\<newline>'')
                 (emit ''<g id="axes" stroke="#1f2937" stroke-width="2">\<newline>'' g))))\<close>

definition drawLabels :: "SVGGraph \<Rightarrow> SVGGraph" where
  \<open>drawLabels g =
     (let cfg = config g
      in emit (''<text x="20" y="'' @ to_string_int (int_div (height cfg) 2) @
               ''" text-anchor="middle" font-size="14" fill="#4b5563" '' @
               ''transform="rotate(-90 20 '' @ to_string_int (int_div (height cfg) 2) @ '')">'' @
               ylabel cfg @ ''</text>\<newline>'')
           (emit (''<text x="'' @ to_string_int (int_div (width cfg) 2) @
                  ''" y="'' @ to_string_int (height cfg - 10) @
                  ''" text-anchor="middle" font-size="14" fill="#4b5563">'' @
                  xlabel cfg @ ''</text>\<newline>'')
              (emit (''<text x="'' @ to_string_int (int_div (width cfg) 2) @
                     ''" y="30" text-anchor="middle" font-size="20" font-weight="bold" fill="#1f2937">'' @
                     title cfg @ ''</text>\<newline>'')
                 g)))\<close>

definition scaleX :: "SVGGraph \<Rightarrow> double \<Rightarrow> double" where
  "scaleX g x =
     (let chartWidth = width (config g) - 2 * padding (config g)
      in dadd (of_int_d (padding (config g)))
           (dmul (ddiv (dsub x (minX g)) (dsub (maxX g) (minX g))) (of_int_d chartWidth)))"

definition scaleY :: "SVGGraph \<Rightarrow> double \<Rightarrow> double" where
  "scaleY g y =
     (let chartHeight = height (config g) - 2 * padding (config g)
      in dsub (of_int_d (height (config g) - padding (config g)))
           (dmul (ddiv (dsub y (minY g)) (dsub (maxY g) (minY g))) (of_int_d chartHeight)))"

text \<open>The bounds of \<^verbatim>\<open>lineChart\<close> and \<^verbatim>\<open>scatterPlot\<close>: the loop over the points, then the
  margin of 5% of each range. Both methods are entered with at least one point.\<close>

definition find_bounds :: "SVGGraph \<Rightarrow> Point list \<Rightarrow> SVGGraph" where
  "find_bounds g points =
     foldl (\<lambda>h p. h\<lparr>minX := std_min (minX h) (px p), maxX := std_max (maxX h) (px p),
                     minY := std_min (minY h) (py p), maxY := std_max (maxY h) (py p)\<rparr>)
       (g\<lparr>minX := px (hd points), maxX := px (hd points),
          minY := py (hd points), maxY := py (hd points)\<rparr>)
       points"

definition pad_bounds :: "SVGGraph \<Rightarrow> SVGGraph" where
  "pad_bounds g =
     (let xRange = dsub (maxX g) (minX g);
          yRange = dsub (maxY g) (minY g)
      in g\<lparr>minX := dsub (minX g) (dmul xRange (Finite 0.05)),
           maxX := dadd (maxX g) (dmul xRange (Finite 0.05)),
           minY := dsub (minY g) (dmul yRange (Finite 0.05)),
           maxY := dadd (maxY g) (dmul yRange (Finite 0.05))\<rparr>)"

definition circle_svg :: "SVGGraph \<Rightarrow> string \<Rightarrow> Point \<Rightarrow> string" where
  \<open>circle_svg g attrs p =
     ''<circle cx="'' @ to_string_double (scaleX g (px p)) @
     ''" cy="'' @ to_string_double (scaleY g (py p)) @
     ''" r="'' @ attrs\<close>

definition lineChart :: "SVGGraph \<Rightarrow> Point list \<Rightarrow> SVGGraph" where
  \<open>lineChart g points =
     (if points = [] then g
      else
        (let g1 = pad_bounds (find_bounds g points);
             g2 = drawLabels (drawAxes (drawGrid (init g1)));
             g3 = emit ''<polyline points="'' g2;
             g4 = foldl (\<lambda>h p. emit (to_string_double (scaleX h (px p)) @ '','' @
                                       to_string_double (scaleY h (py p)) @ '' '') h) g3 points;
             g5 = emit (''" fill="none" stroke="'' @ color (config g4) @
                        ''" stroke-width="2"/>\<newline>'') g4;
             g6 = foldl (\<lambda>h p. emit (circle_svg h (''4" fill="'' @ color (config h) @
                                                     ''"/>\<newline>'') p) h) g5 points
         in emit ''</svg>'' g6))\<close>

definition scatterPlot :: "SVGGraph \<Rightarrow> Point list \<Rightarrow> SVGGraph" where
  \<open>scatterPlot g points =
     (if points = [] then g
      else
        (let g1 = pad_bounds (find_bounds g points);
             g2 = drawLabels (drawAxes (drawGrid (init g1)));
             g3 = foldl (\<lambda>h p. emit (circle_svg h (''5" fill="'' @ color (config h) @
                                                     ''" opacity="0.7"/>\<newline>'') p) h) g2 points
         in emit ''</svg>'' g3))\<close>

text \<open>
  \<^verbatim>\<open>barChart\<close>. Each round of its loop computes the numbers of one bar and appends a
  rectangle and a text label; the record holds the numbers that are printed. The label
  prints \<^verbatim>\<open>(int)points[i].y\<close>, so the chart is undefined (\<open>None\<close>) when that cast is.
\<close>

definition bar_bounds :: "SVGGraph \<Rightarrow> Point list \<Rightarrow> SVGGraph" where
  "bar_bounds g points =
     (let g1 = g\<lparr>minX := of_int_d 0, maxX := of_size_d (length points),
                 minY := of_int_d 0, maxY := py (hd points)\<rparr>;
          g2 = foldl (\<lambda>h p. h\<lparr>maxY := std_max (maxY h) (py p)\<rparr>) g1 points
      in g2\<lparr>maxY := dmul (maxY g2) (Finite 1.1)\<rparr>)"

record Bar =
  rect_x :: double
  rect_y :: double
  rect_width :: double
  rect_height :: double
  label_x :: double
  label_y :: double
  label_value :: double

definition bar_at :: "SVGGraph \<Rightarrow> Point list \<Rightarrow> double \<Rightarrow> nat \<Rightarrow> Bar" where
  "bar_at g points barWidth i =
     (let cfg = config g;
          chartWidth = width cfg - 2 * padding cfg;
          x = dadd (of_int_d (padding cfg))
                (ddiv (dmul (of_int_d chartWidth) (dadd (of_size_d i) (Finite 0.5)))
                   (of_size_d (length points)));
          h = dmul (ddiv (dsub (py (points ! i)) (minY g)) (dsub (maxY g) (minY g)))
                (of_int_d (height cfg - 2 * padding cfg));
          y = dsub (of_int_d (height cfg - padding cfg)) h
      in \<lparr>rect_x = dsub x (ddiv barWidth (of_int_d 2)), rect_y = y, rect_width = barWidth,
          rect_height = h, label_x = x, label_y = dsub y (of_int_d 5),
          label_value = py (points ! i)\<rparr>)"

definition rect_svg :: "GraphConfig \<Rightarrow> Bar \<Rightarrow> string" where
  \<open>rect_svg cfg b =
     ''<rect x="'' @ to_string_double (rect_x b) @
     ''" y="'' @ to_string_double (rect_y b) @
     ''" width="'' @ to_string_double (rect_width b) @
     ''" height="'' @ to_string_double (rect_height b) @
     ''" fill="'' @ color cfg @ ''" opacity="0.8"/>\<newline>''\<close>

definition label_svg :: "Bar \<Rightarrow> int \<Rightarrow> string" where
  \<open>label_svg b l =
     ''<text x="'' @ to_string_double (label_x b) @
     ''" y="'' @ to_string_double (label_y b) @
     ''" text-anchor="middle" font-size="12" fill="#1f2937">'' @
     to_string_int l @ ''</text>\<newline>''\<close>

definition bar_svg :: "GraphConfig \<Rightarrow> Bar \<Rightarrow> string option" where
  "bar_svg cfg b =
     (case double_to_int (label_value b) of
        None \<Rightarrow> None
      | Some l \<Rightarrow> Some (rect_svg cfg b @ label_svg b l))"

function barChart_loop :: "Point list \<Rightarrow> double \<Rightarrow> nat \<Rightarrow> SVGGraph \<Rightarrow> SVGGraph option" where
  "barChart_loop points barWidth i g =
     (if i < length points then
        (case bar_svg (config g) (bar_at g points barWidth i) of
           None \<Rightarrow> None
         | Some s \<Rightarrow> barChart_loop points barWidth (i + 1) (emit s g))
      else Some g)"
  by pat_completeness auto
termination
  by (relation "measure (\<lambda>(points, barWidth, i, g). length points - i)") auto

declare barChart_loop.simps [simp del]

definition barChart :: "SVGGraph \<Rightarrow> Point list \<Rightarrow> SVGGraph option" where
  \<open>barChart g points =
     (if points = [] then Some g
      else
        (let g1 = bar_bounds g points;
             g2 = drawLabels (drawAxes (drawGrid (init g1)));
             chartWidth = width (config g2) - 2 * padding (config g2);
             barWidth = ddiv (of_int_d chartWidth) (dmul (of_size_d (length points)) (Finite 1.5))
         in map_option (emit ''</svg>'') (barChart_loop points barWidth 0 g2)))\<close>

definition getSVG :: "SVGGraph \<Rightarrow> string" where
  "getSVG g = svg g"

section \<open>The file and launch sink\<close>

text \<open>
  The world outside the program: the files, which file names can be opened for writing,
  the value \<^verbatim>\<open>system\<close> returns for a command, the commands run so far, and the platform
  the module was compiled for.
\<close>

datatype Platform = Win32 | Apple | Other

record World =
  files :: "string \<Rightarrow> string option"
  writable :: "string \<Rightarrow> bool"
  system_status :: "string \<Rightarrow> int"
  launched :: "string list"
  platform :: Platform

definition saveToFile :: "string \<Rightarrow> string \<Rightarrow> World \<Rightarrow> bool \<times> World" where
  "saveToFile filename content w =
     (if \<not> writable w filename then (False, w)
      else (True, w\<lparr>files := (files w)(filename \<mapsto> content)\<rparr>))"

definition openInBrowser :: "string \<Rightarrow> World \<Rightarrow> bool \<times> World" where
  "openInBrowser filename w =
     (let cmd = (case platform w of
                   Win32 \<Rightarrow> ''start '' @ filename
                 | Apple \<Rightarrow> ''open '' @ filename
                 | Other \<Rightarrow> ''xdg-open '' @ filename)
      in (system_status w cmd = 0, w\<lparr>launched := launched w @ [cmd]\<rparr>))"

text \<open>The common end of the four exported functions: save, open when saved, return
  whether the file was saved.\<close>

definition save_and_open :: "string \<Rightarrow> string \<Rightarrow> World \<Rightarrow> bool \<times> World" where
  "save_and_open filename content w =
     (let (success, w1) = saveToFile filename content w
      in (success, if success then snd (openInBrowser filename w1) else w1))"

section \<open>The exported functions\<close>

text \<open>
  Modelled from the spec: the host runtime's header \<^verbatim>\<open>neutron.h\<close> is not part of the
  sources. An argument is an opaque host value, of which the module asks only whether it is
  a string and, if so, for its characters; the result is a host boolean.
\<close>

datatype NeutronValue = VString string | VBoolean bool | VNil

definition neutron_is_string :: "NeutronValue \<Rightarrow> bool" where
  "neutron_is_string v = (case v of VString _ \<Rightarrow> True | _ \<Rightarrow> False)"

definition neutron_get_string :: "NeutronValue \<Rightarrow> string" where
  "neutron_get_string v = (case v of VString s \<Rightarrow> s | _ \<Rightarrow> [])"

definition neutron_new_boolean :: "bool \<Rightarrow> NeutronValue" where
  "neutron_new_boolean b = VBoolean b"

text \<open>The configuration of a call: the defaults, with the title of the second argument
  when that is a string.\<close>

definition get_config :: "NeutronValue list \<Rightarrow> GraphConfig" where
  "get_config args =
     (if 2 \<le> length args \<and> neutron_is_string (args ! 1)
      then GraphConfig_default\<lparr>title := neutron_get_string (args ! 1)\<rparr>
      else GraphConfig_default)"

definition graphs_line :: "NeutronValue list \<Rightarrow> World \<Rightarrow> NeutronValue \<times> World" where
  "graphs_line args w =
     (if length args < 1 \<or> \<not> neutron_is_string (args ! 0) then (neutron_new_boolean False, w)
      else
        (let data = neutron_get_string (args ! 0);
             points = parsePoints data
         in if points = [] then (neutron_new_boolean False, w)
            else
              (let graph = lineChart (SVGGraph_new (get_config args)) points;
                   (success, w') = save_and_open ''graph_line.svg'' (getSVG graph) w
               in (neutron_new_boolean success, w'))))"

text \<open>\<^verbatim>\<open>graphs_bar\<close>: a colon anywhere in the data selects the pair form; otherwise the
  values are paired with their positions.\<close>

definition bar_points :: "string \<Rightarrow> Point list" where
  "bar_points data =
     (if find_char data CHR '':'' \<noteq> None then parsePoints data
      else (let values = parseCSV data
            in map (\<lambda>i. \<lparr>px = of_size_d i, py = values ! i\<rparr>) [0..<length values]))"

definition graphs_bar :: "NeutronValue list \<Rightarrow> World \<Rightarrow> (NeutronValue \<times> World) option" where
  "graphs_bar args w =
     (if length args < 1 \<or> \<not> neutron_is_string (args ! 0)
      then Some (neutron_new_boolean False, w)
      else
        (let data = neutron_get_string (args ! 0);
             points = bar_points data
         in if points = [] then Some (neutron_new_boolean False, w)
            else
              (case barChart (SVGGraph_new (get_config args)) points of
                 None \<Rightarrow> None
               | Some graph \<Rightarrow>
                   (let (success, w') = save_and_open ''graph_bar.svg'' (getSVG graph) w
                    in Some (neutron_new_boolean success, w')))))"

definition graphs_scatter :: "NeutronValue list \<Rightarrow> World \<Rightarrow> NeutronValue \<times> World" where
  "graphs_scatter args w =
     (if length args < 1 \<or> \<not> neutron_is_string (args ! 0) then (neutron_new_boolean False, w)
      else
        (let data = neutron_get_string (args ! 0);
             points = parsePoints data
         in if points = [] then (neutron_new_boolean False, w)
            else
              (let graph = scatterPlot (SVGGraph_new (get_config args)) points;
                   (success, w') = save_and_open ''graph_scatter.svg'' (getSVG graph) w
               in (neutron_new_boolean success, w'))))"

subsection \<open>The pie renderer\<close>

text \<open>\<^verbatim>\<open>cos\<close>, \<^verbatim>\<open>sin\<close> and \<^verbatim>\<open>M_PI\<close> of \<^verbatim>\<open>cmath\<close>.\<close>

fun dcos :: "double \<Rightarrow> double" where
  "dcos (Finite r) = Finite (cos r)"
| "dcos _ = NaN"

fun dsin :: "double \<Rightarrow> double" where
  "dsin (Finite r) = Finite (sin r)"
| "dsin _ = NaN"

definition M_PI :: double where
  "M_PI = Finite pi"

text \<open>The commands of the path of a slice, \<^verbatim>\<open>M cx cy L x1 y1 A r r 0 large 1 x2 y2 Z\<close>: the
  arc command carries the radii, the rotation, the large-arc flag, the sweep flag and the
  end point.\<close>

datatype path_cmd =
  MoveTo double double
| LineTo double double
| ArcTo double double int int int double double
| ClosePath

fun path_cmd_svg :: "path_cmd \<Rightarrow> string" where
  "path_cmd_svg (MoveTo x y) = ''M '' @ to_string_double x @ '' '' @ to_string_double y"
| "path_cmd_svg (LineTo x y) = ''L '' @ to_string_double x @ '' '' @ to_string_double y"
| "path_cmd_svg (ArcTo rx ry rot large sweep x y) =
     ''A '' @ to_string_double rx @ '' '' @ to_string_double ry @ '' '' @
     to_string_int rot @ '' '' @ to_string_int large @ '' '' @ to_string_int sweep @ '' '' @
     to_string_double x @ '' '' @ to_string_double y"
| "path_cmd_svg ClosePath = ''Z''"

fun path_svg :: "path_cmd list \<Rightarrow> string" where
  "path_svg [] = []"
| "path_svg [c] = path_cmd_svg c"
| "path_svg (c # cs) = path_cmd_svg c @ '' '' @ path_svg cs"

record Slice =
  startAngle :: double
  angle :: double
  endAngle :: double
  path :: "path_cmd list"
  fill :: string
  labelX :: double
  labelY :: double
  percent :: double

definition colors :: "string list" where
  "colors = [''#3b82f6'', ''#ef4444'', ''#10b981'', ''#f59e0b'', ''#8b5cf6'', ''#ec4899'']"

definition pie_total :: "double list \<Rightarrow> double" where
  "pie_total values = foldl dadd (of_int_d 0) values"

definition pie_slice :: "double list \<Rightarrow> double \<Rightarrow> nat \<Rightarrow> double \<Rightarrow> Slice" where
  "pie_slice values tot i start =
     (let cx = of_int_d 400; cy = of_int_d 320; radius = of_int_d 180;
          a = dmul (ddiv (values ! i) tot) (of_int_d 360);
          e = dadd start a;
          x1 = dadd cx (dmul radius (dcos (ddiv (dmul start M_PI) (of_int_d 180))));
          y1 = dadd cy (dmul radius (dsin (ddiv (dmul start M_PI) (of_int_d 180))));
          x2 = dadd cx (dmul radius (dcos (ddiv (dmul e M_PI) (of_int_d 180))));
          y2 = dadd cy (dmul radius (dsin (ddiv (dmul e M_PI) (of_int_d 180))));
          largeArc = (if dgreater a (of_int_d 180) then 1 else 0);
          la = dadd start (ddiv a (of_int_d 2))
      in \<lparr>startAngle = start, angle = a, endAngle = e,
          path = [MoveTo cx cy, LineTo x1 y1, ArcTo radius radius 0 largeArc 1 x2 y2, ClosePath],
          fill = colors ! (i mod length colors),
          labelX = dadd cx (dmul (dmul radius (Finite 0.7))
                              (dcos (ddiv (dmul la M_PI) (of_int_d 180)))),
          labelY = dadd cy (dmul (dmul radius (Finite 0.7))
                              (dsin (ddiv (dmul la M_PI) (of_int_d 180)))),
          percent = dmul (ddiv (values ! i) tot) (of_int_d 100)\<rparr>)"

text \<open>The text of a slice: the path, then the label, which prints \<^verbatim>\<open>(int)\<close> of the
  percentage and so is undefined (\<open>None\<close>) when that cast is.\<close>

definition slice_svg :: "Slice \<Rightarrow> string option" where
  \<open>slice_svg sl =
     (case double_to_int (percent sl) of
        None \<Rightarrow> None
      | Some p \<Rightarrow>
          Some (''<path d="'' @ path_svg (path sl) @ ''"'' @
                '' fill="'' @ fill sl @ ''" stroke="white" stroke-width="2"/>\<newline>'' @
                ''<text x="'' @ to_string_double (labelX sl) @
                ''" y="'' @ to_string_double (labelY sl) @
                ''" text-anchor="middle" font-size="14" fill="white" font-weight="bold">'' @
                to_string_int p @ ''%</text>\<newline>''))\<close>

text \<open>The loop \<^verbatim>\<open>for (size_t i = 0; i < values.size(); i++)\<close> of \<^verbatim>\<open>graphs_pie\<close>: the slices
  in the order of the rounds, each starting at the angle where the one before ended, and
  the text the rounds append, one slice after the other.\<close>

function pie_slices :: "double list \<Rightarrow> double \<Rightarrow> nat \<Rightarrow> double \<Rightarrow> Slice list" where
  "pie_slices values tot i start =
     (if i < length values then
        (let sl = pie_slice values tot i start
         in sl # pie_slices values tot (i + 1) (endAngle sl))
      else [])"
  by pat_completeness auto
termination
  by (relation "measure (\<lambda>(values, tot, i, start). length values - i)") auto

declare pie_slices.simps [simp del]

fun pie_body :: "Slice list \<Rightarrow> string \<Rightarrow> string option" where
  "pie_body [] s = Some s"
| "pie_body (sl # sls) s =
     (case slice_svg sl of None \<Rightarrow> None | Some t \<Rightarrow> pie_body sls (s @ t))"

definition pie_title :: "NeutronValue list \<Rightarrow> string" where
  "pie_title args =
     (if 2 \<le> length args \<and> neutron_is_string (args ! 1) then neutron_get_string (args ! 1)
      else ''Pie Chart'')"

definition pie_header :: "string \<Rightarrow> string" where
  \<open>pie_header t =
     ''<?xml version="1.0" encoding="UTF-8"?>\<newline>'' @
     ''<svg xmlns="http://www.w3.org/2000/svg" width="800" height="600">\<newline>'' @
     ''<rect width="100%" height="100%" fill="#ffffff"/>\<newline>'' @
     ''<text x="400" y="30" text-anchor="middle" font-size="20" font-weight="bold">'' @ t @
     ''</text>\<newline>''\<close>

definition graphs_pie :: "NeutronValue list \<Rightarrow> World \<Rightarrow> (NeutronValue \<times> World) option" where
  "graphs_pie args w =
     (if length args < 1 \<or> \<not> neutron_is_string (args ! 0)
      then Some (neutron_new_boolean False, w)
      else
        (let data = neutron_get_string (args ! 0);
             values = parseCSV data
         in if values = [] then Some (neutron_new_boolean False, w)
            else
              (let tot = pie_total values
               in if deq tot (of_int_d 0) then Some (neutron_new_boolean False, w)
                  else
                    (case pie_body (pie_slices values tot 0 (of_int_d (- 90)))
                            (pie_header (pie_title args)) of
                       None \<Rightarrow> None
                     | Some s \<Rightarrow>
                         (let (success, w') = save_and_open ''graph_pie.svg'' (s @ ''</svg>'') w
                          in Some (neutron_new_boolean success, w'))))))"

section \<open>The specification's wording\<close>

text \<open>
  The parsers as the specification words them: the text is split at every comma, each
  segment is converted on its own, and a segment that does not convert is left out.
  \<open>convert\<close> is the attempt at a numeric conversion, \<open>None\<close> when \<^verbatim>\<open>std::stod\<close> throws.
\<close>

fun split_on :: "char \<Rightarrow> string \<Rightarrow> string list" where
  "split_on d [] = [[]]"
| "split_on d (c # cs) =
     (if c = d then [] # split_on d cs
      else (case split_on d cs of [] \<Rightarrow> [[c]] | seg # segs \<Rightarrow> (c # seg) # segs))"

definition convert :: "string \<Rightarrow> double option" where
  "convert seg = (case stod seg of Inr v \<Rightarrow> Some v | Inl _ \<Rightarrow> None)"

definition parseValues :: "string \<Rightarrow> double list" where
  "parseValues text = List.map_filter convert (split_on CHR '','' text)"

definition pair_of :: "string \<Rightarrow> Point option" where
  "pair_of seg =
     (if CHR '':'' \<in> set seg then
        (case (convert (takeWhile (\<lambda>c. c \<noteq> CHR '':'') seg),
               convert (tl (dropWhile (\<lambda>c. c \<noteq> CHR '':'') seg))) of
           (Some x, Some y) \<Rightarrow> Some \<lparr>px = x, py = y\<rparr>
         | _ \<Rightarrow> None)
      else None)"

definition parsePairs :: "string \<Rightarrow> Point list" where
  "parsePairs text = List.map_filter pair_of (split_on CHR '','' text)"

text \<open>A world for the examples: no file yet, every file can be written, every command
  succeeds.\<close>

definition world0 :: World where
  "world0 = \<lparr>files = (\<lambda>_. None), writable = (\<lambda>_. True), system_status = (\<lambda>_. 0),
             launched = [], platform = Other\<rparr>"


text \<open>
  The bar chart in parts: the frame is the graph when the loop of \<^verbatim>\<open>barChart\<close> starts
  (bounds set, header, grid, axes and labels drawn), and the bars are the numbers of the
  rounds of the loop, in their order.
\<close>

definition chart_frame :: "SVGGraph \<Rightarrow> Point list \<Rightarrow> SVGGraph" where
  "chart_frame g points = drawLabels (drawAxes (drawGrid (init (bar_bounds g points))))"

definition bars :: "SVGGraph \<Rightarrow> Point list \<Rightarrow> Bar list" where
  "bars g points =
     (let g2 = chart_frame g points;
          chartWidth = width (config g2) - 2 * padding (config g2);
          barWidth = ddiv (of_int_d chartWidth) (dmul (of_size_d (length points)) (Finite 1.5))
      in map (bar_at g2 points barWidth) [0..<length points])"


definition innerWidth :: "GraphConfig \<Rightarrow> real" where
  "innerWidth cfg = of_int (width cfg - 2 * padding cfg)"

definition innerHeight :: "GraphConfig \<Rightarrow> real" where
  "innerHeight cfg = of_int (height cfg - 2 * padding cfg)"

definition slot_centre :: "GraphConfig \<Rightarrow> nat \<Rightarrow> nat \<Rightarrow> real" where
  "slot_centre cfg n i = of_int (padding cfg) + innerWidth cfg * (of_nat i + 1 / 2) / of_nat n"

definition slot_width :: "GraphConfig \<Rightarrow> nat \<Rightarrow> real" where
  "slot_width cfg n = innerWidth cfg / (of_nat n * (3 / 2))"

text \<open>The flags of the arcs of a path, the large-arc flag first, the sweep flag second.\<close>

fun arc_flags :: "path_cmd list \<Rightarrow> (int \<times> int) list" where
  "arc_flags [] = []"
| "arc_flags (ArcTo rx ry rot large sweep x y # cs) = (large, sweep) # arc_flags cs"
| "arc_flags (c # cs) = arc_flags cs"

section \<open>Properties of the value parser\<close>

lemmas stod_eval = stod_def isspace_def parse_hex_def parse_decimal_def parse_mantissa_def
  isdigit_def digits_val_def digit_of_def tolower_def parse_exponent_def pow_int_def DBL_MAX_def

lemma split_on_unfold:
  "split_on d ss =
     takeWhile (\<lambda>c. c \<noteq> d) ss #
       (case dropWhile (\<lambda>c. c \<noteq> d) ss of [] \<Rightarrow> [] | _ # r \<Rightarrow> split_on d r)"
  by (induction ss) (auto split: list.splits)

lemma stod_empty: "stod [] = Inl invalid_argument"
  by (simp add: stod_def parse_hex_def parse_decimal_def parse_mantissa_def)

lemma convert_empty: "convert [] = None"
  by (simp add: convert_def stod_empty)

lemma pair_of_empty: "pair_of [] = None"
  by (simp add: pair_of_def)

text \<open>One round of the \<^verbatim>\<open>getline\<close> loop takes the first segment of the split; the empty
  segment after a last comma, which \<^verbatim>\<open>getline\<close> never delivers, converts to nothing.\<close>

lemma map_filter_split_step:
  assumes "f [] = None" and "ss \<noteq> []"
  shows "List.map_filter f (split_on d ss) =
           List.map_filter f [takeWhile (\<lambda>c. c \<noteq> d) ss] @
           List.map_filter f (split_on d (drop 1 (dropWhile (\<lambda>c. c \<noteq> d) ss)))"
proof -
  have u: "split_on d ss =
     takeWhile (\<lambda>c. c \<noteq> d) ss #
       (case dropWhile (\<lambda>c. c \<noteq> d) ss of [] \<Rightarrow> [] | _ # r \<Rightarrow> split_on d r)"
    by (rule split_on_unfold)
  show ?thesis
  proof (cases "dropWhile (\<lambda>c. c \<noteq> d) ss")
    case Nil
    show ?thesis
      unfolding u Nil using assms(1) by (simp split: option.splits)
  next
    case (Cons a r)
    show ?thesis
      unfolding u Cons by (simp split: option.splits)
  qed
qed

lemma getline_nonempty:
  "ss \<noteq> [] \<Longrightarrow> getline ss d =
     Some (takeWhile (\<lambda>c. c \<noteq> d) ss, drop 1 (dropWhile (\<lambda>c. c \<noteq> d) ss))"
  by (simp add: getline_def)

lemma parseCSV_loop_eq:
  "parseCSV_loop ss acc = acc @ List.map_filter convert (split_on CHR '','' ss)"
proof (induction ss acc rule: parseCSV_loop.induct)
  case (1 ss acc)
  show ?case
  proof (cases "ss = []")
    case True
    then show ?thesis
      by (subst parseCSV_loop.simps) (simp add: getline_def convert_empty)
  next
    case False
    note g = getline_nonempty [OF False, of "CHR '',''"]
    show ?thesis
      apply (subst parseCSV_loop.simps)
      apply (simp only: g option.case prod.case)
      apply (subst "1.IH" [OF g refl])
      apply (subst map_filter_split_step [where f = convert and d = "CHR '',''", OF convert_empty False])
      apply (simp add: convert_def split: sum.splits)
      done
  qed
qed

lemma parse_pair_eq: "parse_pair seg = pair_of seg"
proof (cases "CHR '':'' \<in> set seg")
  case False
  then show ?thesis by (simp add: parse_pair_def pair_of_def find_char_def)
next
  case True
  have l: "substr seg 0 (length (takeWhile (\<lambda>c. c \<noteq> CHR '':'') seg)) =
             takeWhile (\<lambda>c. c \<noteq> CHR '':'') seg"
    by (simp add: substr_def takeWhile_eq_take [symmetric])
  have r: "substr_from seg (length (takeWhile (\<lambda>c. c \<noteq> CHR '':'') seg) + 1) =
             tl (dropWhile (\<lambda>c. c \<noteq> CHR '':'') seg)"
    by (simp add: substr_from_def dropWhile_eq_drop drop_Suc tl_drop)
  show ?thesis
    using True
    by (simp add: parse_pair_def pair_of_def find_char_def l r convert_def
             del: One_nat_def add_Suc_right split: sum.splits)
qed

lemma parsePoints_loop_eq:
  "parsePoints_loop ss acc = acc @ List.map_filter pair_of (split_on CHR '','' ss)"
proof (induction ss acc rule: parsePoints_loop.induct)
  case (1 ss acc)
  show ?case
  proof (cases "ss = []")
    case True
    then show ?thesis
      by (subst parsePoints_loop.simps) (simp add: getline_def pair_of_empty)
  next
    case False
    note g = getline_nonempty [OF False, of "CHR '',''"]
    show ?thesis
      apply (subst parsePoints_loop.simps)
      apply (simp only: g option.case prod.case)
      apply (subst "1.IH" [OF g refl])
      apply (subst map_filter_split_step [where f = pair_of and d = "CHR '',''", OF pair_of_empty False])
      apply (simp add: parse_pair_eq split: option.splits)
      done
  qed
qed

lemma parseCSV_eq: "parseCSV text = parseValues text"
  by (simp add: parseCSV_def parseValues_def parseCSV_loop_eq)

lemma parsePoints_eq: "parsePoints text = parsePairs text"
  by (simp add: parsePoints_def parsePairs_def parsePoints_loop_eq)



section \<open>Properties of the exported functions\<close>


lemma angle_pie_slice:
  "angle (pie_slice values tot i start) = dmul (ddiv (values ! i) tot) (of_int_d 360)"
  by (simp add: pie_slice_def Let_def)

lemma startAngle_pie_slice: "startAngle (pie_slice values tot i start) = start"
  by (simp add: pie_slice_def Let_def)

lemma endAngle_pie_slice:
  "endAngle (pie_slice values tot i start) = dadd start (angle (pie_slice values tot i start))"
  by (simp add: pie_slice_def Let_def)

text \<open>
  C4. For every data string whose parse is empty (\<^verbatim>\<open>parsePoints\<close> for \<^verbatim>\<open>line\<close> and
  \<^verbatim>\<open>scatter\<close>, \<^verbatim>\<open>parseCSV\<close> for \<^verbatim>\<open>pie\<close>, the parse the data selects for \<^verbatim>\<open>bar\<close>),
  each of the four exported functions returns false and leaves the world as it was: no
  file is written and nothing is launched, whatever the other arguments are. The text
  \<^verbatim>\<open>x,y\<close>, whose tokens are not numbers and have no colon, is such a string for all four.
\<close>

theorem empty_parse_fails:
  "(parsePoints data = [] \<longrightarrow>
      graphs_line (VString data # rest) w = (VBoolean False, w) \<and>
      graphs_scatter (VString data # rest) w = (VBoolean False, w)) \<and>
   (bar_points data = [] \<longrightarrow> graphs_bar (VString data # rest) w = Some (VBoolean False, w)) \<and>
   (parseCSV data = [] \<longrightarrow> graphs_pie (VString data # rest) w = Some (VBoolean False, w))"
  by (simp add: graphs_line_def graphs_scatter_def graphs_bar_def graphs_pie_def
        neutron_is_string_def neutron_get_string_def neutron_new_boolean_def)

lemma parse_xy: "parseCSV ''x,y'' = []" "parsePoints ''x,y'' = []" "bar_points ''x,y'' = []"
  by (simp_all add: parseCSV_eq parseValues_def parsePoints_eq parsePairs_def pair_of_def
        convert_def bar_points_def find_char_def stod_eval)

theorem empty_parse_fails_witness:
  "parsePoints ''x,y'' = [] \<and> bar_points ''x,y'' = [] \<and> parseCSV ''x,y'' = [] \<and>
   graphs_line [VString ''x,y''] world0 = (VBoolean False, world0) \<and>
   graphs_scatter [VString ''x,y''] world0 = (VBoolean False, world0) \<and>
   graphs_bar [VString ''x,y''] world0 = Some (VBoolean False, world0) \<and>
   graphs_pie [VString ''x,y''] world0 = Some (VBoolean False, world0)"
  using empty_parse_fails [of "''x,y''" "[]" world0] parse_xy by simp






section \<open>Properties of the scaler\<close>












section \<open>Properties of the bar chart\<close>

lemma emit_fields [simp]:
  "config (emit s g) = config g" "minX (emit s g) = minX g" "maxX (emit s g) = maxX g"
  "minY (emit s g) = minY g" "maxY (emit s g) = maxY g" "svg (emit s g) = svg g @ s"
  by (simp_all add: emit_def)

lemma emit_emit: "emit t (emit s g) = emit (s @ t) g"
  by (simp add: emit_def)

lemma emit_Nil: "emit [] g = g"
  by (simp add: emit_def)

lemma foldl_emit_fields [simp]:
  "config (foldl (\<lambda>h i. emit (f i) h) g xs) = config g"
  "minX (foldl (\<lambda>h i. emit (f i) h) g xs) = minX g"
  "maxX (foldl (\<lambda>h i. emit (f i) h) g xs) = maxX g"
  "minY (foldl (\<lambda>h i. emit (f i) h) g xs) = minY g"
  "maxY (foldl (\<lambda>h i. emit (f i) h) g xs) = maxY g"
  by (induction xs arbitrary: g) simp_all

lemma init_fields [simp]:
  "config (init g) = config g" "minX (init g) = minX g" "maxX (init g) = maxX g"
  "minY (init g) = minY g" "maxY (init g) = maxY g"
  by (simp_all add: init_def)

lemma drawGrid_fields [simp]:
  "config (drawGrid g) = config g" "minX (drawGrid g) = minX g" "maxX (drawGrid g) = maxX g"
  "minY (drawGrid g) = minY g" "maxY (drawGrid g) = maxY g"
  by (simp_all add: drawGrid_def)

lemma drawAxes_fields [simp]:
  "config (drawAxes g) = config g" "minX (drawAxes g) = minX g" "maxX (drawAxes g) = maxX g"
  "minY (drawAxes g) = minY g" "maxY (drawAxes g) = maxY g"
  by (simp_all add: drawAxes_def Let_def)

lemma drawLabels_fields [simp]:
  "config (drawLabels g) = config g" "minX (drawLabels g) = minX g" "maxX (drawLabels g) = maxX g"
  "minY (drawLabels g) = minY g" "maxY (drawLabels g) = maxY g"
  by (simp_all add: drawLabels_def Let_def)

lemma bar_at_emit [simp]: "bar_at (emit s g) points bw i = bar_at g points bw i"
  by (simp add: bar_at_def)

lemma those_Cons:
  "those (x # xs) = (case x of None \<Rightarrow> None | Some y \<Rightarrow> map_option ((#) y) (those xs))"
  by simp

lemma barChart_loop_eq:
  "barChart_loop points bw i g =
     map_option (\<lambda>ts. emit (concat ts) g)
       (those (map (\<lambda>j. bar_svg (config g) (bar_at g points bw j)) [i..<length points]))"
proof (induction points bw i g rule: barChart_loop.induct)
  case (1 points bw i g)
  show ?case
  proof (cases "i < length points")
    case False
    then show ?thesis
      by (subst barChart_loop.simps) (simp add: emit_Nil)
  next
    case True
    show ?thesis
    proof (cases "bar_svg (config g) (bar_at g points bw i)")
      case None
      then show ?thesis
        using True by (subst barChart_loop.simps) (simp add: upt_conv_Cons)
    next
      case (Some s)
      show ?thesis
        apply (subst barChart_loop.simps)
        using True Some "1.IH" [OF True Some]
        apply (simp add: upt_conv_Cons emit_emit option.map_comp comp_def split: option.splits)
        done
    qed
  qed
qed

lemma bar_bounds_config [simp]: "config (bar_bounds g points) = config g"
proof -
  have c: "config (foldl (\<lambda>h p. h\<lparr>maxY := std_max (maxY h) (py p)\<rparr>) h0 ps) = config h0"
    for h0 :: SVGGraph and ps :: "Point list"
    by (induction ps arbitrary: h0) simp_all
  show ?thesis by (simp add: bar_bounds_def Let_def c)
qed

lemma chart_frame_config [simp]: "config (chart_frame g points) = config g"
  by (simp add: chart_frame_def)

text \<open>The document of the bar chart: the frame, the text of the bars in order, the closing tag.\<close>

lemma barChart_document:
  assumes "points \<noteq> []"
  shows "barChart g points =
           map_option (\<lambda>ts. emit ''</svg>'' (emit (concat ts) (chart_frame g points)))
             (those (map (bar_svg (config g)) (bars g points)))"
  using assms
  by (simp add: barChart_def barChart_loop_eq bars_def chart_frame_def Let_def
        option.map_comp comp_def)









lemma bar_bounds_foldl:
  "foldl (\<lambda>h p. h\<lparr>maxY := std_max (maxY h) (py p)\<rparr>) h0 ps =
     h0\<lparr>maxY := foldl std_max (maxY h0) (map py ps)\<rparr>"
  by (induction ps arbitrary: h0) simp_all

lemma bar_bounds_eq:
  "points \<noteq> [] \<Longrightarrow> bar_bounds g points =
     g\<lparr>minX := Finite 0, maxX := Finite (of_nat (length (map py points))), minY := Finite 0,
       maxY := dmul (foldl std_max (hd (map py points)) (map py points)) (Finite 1.1)\<rparr>"
  by (simp add: bar_bounds_def bar_bounds_foldl Let_def of_int_d_def of_size_d_def hd_map)


lemma chart_frame_cong:
  assumes "map py ps = map py qs"
  shows "chart_frame g ps = chart_frame g qs"
proof (cases "ps = []")
  case True
  then have "qs = []" using assms by simp
  then show ?thesis using True by simp
next
  case False
  then have "qs \<noteq> []" using assms by auto
  then show ?thesis using False assms by (simp add: chart_frame_def bar_bounds_eq)
qed

lemma bar_at_cong:
  assumes "map py ps = map py qs" "i < length ps"
  shows "bar_at g ps bw i = bar_at g qs bw i"
proof -
  have l: "length ps = length qs" using assms(1) by (rule map_eq_imp_length_eq)
  have "py (ps ! i) = map py ps ! i" using assms(2) by simp
  also have "\<dots> = py (qs ! i)" using assms l by simp
  finally show ?thesis by (simp add: bar_at_def l)
qed

lemma bars_cong:
  assumes "map py ps = map py qs"
  shows "bars g ps = bars g qs"
proof -
  have l: "length ps = length qs" using assms by (rule map_eq_imp_length_eq)
  show ?thesis
    using bar_at_cong [OF assms]
    by (simp add: bars_def Let_def chart_frame_cong [OF assms] l [symmetric] cong: map_cong)
qed

lemma barChart_cong:
  assumes "map py ps = map py qs"
  shows "barChart g ps = barChart g qs"
proof (cases "ps = []")
  case True
  then have "qs = []" using assms by simp
  then show ?thesis using True by simp
next
  case False
  then have "qs \<noteq> []" using assms by auto
  then show ?thesis
    using False by (simp add: barChart_document bars_cong [OF assms] chart_frame_cong [OF assms])
qed

lemma length_bars [simp]: "length (bars g points) = length points"
  by (simp add: bars_def Let_def)

lemma bars_nth:
  "i < length points \<Longrightarrow>
   bars g points ! i =
     bar_at (chart_frame g points) points
       (ddiv (of_int_d (width (config g) - 2 * padding (config g)))
          (dmul (of_size_d (length points)) (Finite 1.5))) i"
  by (simp add: bars_def Let_def)

lemma bar_numbers:
  assumes "i < length points"
  shows "rect_width (bars g points ! i) = Finite (slot_width (config g) (length points))"
    and "rect_x (bars g points ! i) =
           Finite (slot_centre (config g) (length points) i -
                   slot_width (config g) (length points) / 2)"
    and "label_x (bars g points ! i) = Finite (slot_centre (config g) (length points) i)"
    and "rect_height (bars g points ! i) =
           dmul (ddiv (dsub (py (points ! i)) (minY (chart_frame g points)))
                   (dsub (maxY (chart_frame g points)) (minY (chart_frame g points))))
             (Finite (innerHeight (config g)))"
    and "rect_y (bars g points ! i) =
           dsub (Finite (of_int (height (config g) - padding (config g))))
             (rect_height (bars g points ! i))"
    and "label_value (bars g points ! i) = py (points ! i)"
proof -
  have ne: "points \<noteq> []" using assms by auto
  show "rect_width (bars g points ! i) = Finite (slot_width (config g) (length points))"
    and "rect_x (bars g points ! i) =
           Finite (slot_centre (config g) (length points) i -
                   slot_width (config g) (length points) / 2)"
    and "label_x (bars g points ! i) = Finite (slot_centre (config g) (length points) i)"
    and "rect_height (bars g points ! i) =
           dmul (ddiv (dsub (py (points ! i)) (minY (chart_frame g points)))
                   (dsub (maxY (chart_frame g points)) (minY (chart_frame g points))))
             (Finite (innerHeight (config g)))"
    and "rect_y (bars g points ! i) =
           dsub (Finite (of_int (height (config g) - padding (config g))))
             (rect_height (bars g points ! i))"
    and "label_value (bars g points ! i) = py (points ! i)"
    using assms ne
    by (simp_all add: bars_nth bar_at_def Let_def of_int_d_def of_size_d_def dsub_def
          slot_width_def slot_centre_def innerWidth_def innerHeight_def)
qed




lemma those_map_Some:
  "(\<And>x. x \<in> set xs \<Longrightarrow> f x = Some (h x)) \<Longrightarrow> those (map f xs) = Some (map h xs)"
  by (induction xs) simp_all

lemma map_via_nth: "map f xs = map (\<lambda>i. f (xs ! i)) [0..<length xs]"
  by (rule nth_equalityI) simp_all


lemma barChart_labels:
  assumes "points \<noteq> []" "map py points = map Finite ys"
    and "\<forall>y \<in> set ys. INT_MIN \<le> trunc y \<and> trunc y \<le> INT_MAX"
  shows "barChart g points =
           Some (emit ''</svg>''
             (emit (concat (map (\<lambda>i. rect_svg (config g) (bars g points ! i) @
                                      label_svg (bars g points ! i) (trunc (ys ! i)))
                             [0..<length points]))
                (chart_frame g points)))"
proof -
  have len: "length ys = length points"
    using assms(2) map_eq_imp_length_eq by fastforce
  have b: "bar_svg (config g) (bars g points ! i) =
             Some (rect_svg (config g) (bars g points ! i) @
                   label_svg (bars g points ! i) (trunc (ys ! i)))"
    if "i \<in> set [0..<length points]" for i
  proof -
    have i: "i < length points" using that by simp
    have "py (points ! i) = map py points ! i" using i by simp
    also have "\<dots> = Finite (ys ! i)" using i len by (simp add: assms(2))
    finally have v: "label_value (bars g points ! i) = Finite (ys ! i)"
      using bar_numbers(6) [OF i, of g] by simp
    have "ys ! i \<in> set ys" using i len by simp
    then have "INT_MIN \<le> trunc (ys ! i) \<and> trunc (ys ! i) \<le> INT_MAX"
      using assms(3) by blast
    then show ?thesis by (simp add: bar_svg_def v)
  qed
  have "map (bar_svg (config g)) (bars g points) =
          map (\<lambda>i. bar_svg (config g) (bars g points ! i)) [0..<length points]"
    using map_via_nth [of "bar_svg (config g)" "bars g points"] by simp
  then show ?thesis
    using those_map_Some [of "[0..<length points]" _ _, OF b]
    by (simp add: barChart_document [OF assms(1)])
qed







text \<open>
  C10. The bar chart depends on the y values of the points in their order only: two point
  sequences with the same y values give the same chart, and two data strings whose points
  have the same y values give the same result of \<^verbatim>\<open>bar\<close>, document included, whatever the
  x coordinates are. The data \<^verbatim>\<open>1:45,2:67\<close> and \<^verbatim>\<open>10:45,99:67\<close> are such a pair.
\<close>

theorem bar_ignores_x:
  "(map py ps = map py qs \<longrightarrow> barChart g ps = barChart g qs) \<and>
   (map py (bar_points d1) = map py (bar_points d2) \<longrightarrow>
      graphs_bar (VString d1 # rest) w = graphs_bar (VString d2 # rest) w)"
proof (intro conjI impI)
  assume "map py ps = map py qs"
  then show "barChart g ps = barChart g qs" by (rule barChart_cong)
next
  assume e: "map py (bar_points d1) = map py (bar_points d2)"
  have n: "bar_points d1 = [] \<longleftrightarrow> bar_points d2 = []"
    using e by (metis map_is_Nil_conv)
  have c: "get_config (VString d1 # rest) = get_config (VString d2 # rest)"
    by (simp add: get_config_def)
  show "graphs_bar (VString d1 # rest) w = graphs_bar (VString d2 # rest) w"
    using n by (simp add: graphs_bar_def neutron_is_string_def neutron_get_string_def
        barChart_cong [OF e] c Let_def)
qed

lemma parse_pairs_a: "bar_points ''1:45,2:67'' =
    [\<lparr>px = Finite 1, py = Finite 45\<rparr>, \<lparr>px = Finite 2, py = Finite 67\<rparr>]"
  and parse_pairs_b: "bar_points ''10:45,99:67'' =
    [\<lparr>px = Finite 10, py = Finite 45\<rparr>, \<lparr>px = Finite 99, py = Finite 67\<rparr>]"
  by (simp_all add: bar_points_def find_char_def parsePoints_eq parsePairs_def pair_of_def
        convert_def stod_eval)

theorem bar_ignores_x_witness:
  "map py (bar_points ''1:45,2:67'') = map py (bar_points ''10:45,99:67'') \<and>
   bar_points ''1:45,2:67'' \<noteq> bar_points ''10:45,99:67'' \<and>
   barChart (SVGGraph_new GraphConfig_default) (bar_points ''1:45,2:67'') =
     barChart (SVGGraph_new GraphConfig_default) (bar_points ''10:45,99:67'') \<and>
   graphs_bar [VString ''1:45,2:67''] world0 = graphs_bar [VString ''10:45,99:67''] world0 \<and>
   map_option fst (graphs_bar [VString ''1:45,2:67''] world0) = Some (VBoolean True)"
proof -
  let ?g = "SVGGraph_new (get_config [VString ''1:45,2:67''])"
  have e: "map py (bar_points ''1:45,2:67'') = map py (bar_points ''10:45,99:67'')"
    by (simp add: parse_pairs_a parse_pairs_b)
  have d: "bar_points ''1:45,2:67'' \<noteq> bar_points ''10:45,99:67''"
    by (simp add: parse_pairs_a parse_pairs_b)
  have ne: "bar_points ''1:45,2:67'' \<noteq> []" by (simp add: parse_pairs_a)
  have ys: "map py (bar_points ''1:45,2:67'') = map Finite [45, 67]"
    by (simp add: parse_pairs_a)
  have rg: "\<forall>y \<in> set [45, 67 :: real]. INT_MIN \<le> trunc y \<and> trunc y \<le> INT_MAX"
    by (simp add: trunc_def INT_MIN_def INT_MAX_def)
  obtain doc where doc: "barChart ?g (bar_points ''1:45,2:67'') = Some doc"
    using barChart_labels [OF ne ys rg, of ?g] by blast
  have r: "map_option fst (graphs_bar [VString ''1:45,2:67''] world0) = Some (VBoolean True)"
    using ne
    by (simp add: graphs_bar_def neutron_is_string_def neutron_get_string_def doc
        save_and_open_def saveToFile_def openInBrowser_def world0_def neutron_new_boolean_def)
  show ?thesis
    using e d r
      bar_ignores_x [of "bar_points ''1:45,2:67''" "bar_points ''10:45,99:67''"
        "SVGGraph_new GraphConfig_default" "''1:45,2:67''" "''10:45,99:67''" "[]" world0]
    by simp
qed

section \<open>Properties of the pie renderer\<close>

lemma path_pie_slice:
  "arc_flags (path (pie_slice values tot i start)) =
     [(if dgreater (angle (pie_slice values tot i start)) (of_int_d 180) then 1 else 0, 1)]"
  by (simp add: pie_slice_def Let_def)

lemma length_pie_slices: "length (pie_slices values tot i start) = length values - i"
proof (induction "values" tot i start rule: pie_slices.induct)
  case (1 vals tot i start)
  show ?case
  proof (cases "i < length vals")
    case True
    then show ?thesis
      using "1.IH" [OF True refl] by (subst pie_slices.simps) (simp add: Let_def)
  next
    case False
    then show ?thesis by (subst pie_slices.simps) simp
  qed
qed

lemma pie_slices_unfold:
  "i < length values \<Longrightarrow>
   pie_slices values tot i start =
     pie_slice values tot i start #
     pie_slices values tot (i + 1) (endAngle (pie_slice values tot i start))"
  by (subst pie_slices.simps) (simp add: Let_def)

text \<open>Slice \<open>k\<close> of the loop started at round \<open>i\<close> is the slice of round \<open>i + k\<close>; the
  first starts at the loop's start angle and every other where the one before ends.\<close>

lemma pie_slices_nth:
  "k < length values - i \<Longrightarrow>
   \<exists>s. pie_slices values tot i start ! k = pie_slice values tot (i + k) s"
proof (induction "values" tot i start arbitrary: k rule: pie_slices.induct)
  case (1 vals tot i start)
  then have i: "i < length vals" by simp
  note u = pie_slices_unfold [OF i, of tot start]
  show ?case
  proof (cases k)
    case 0
    then show ?thesis by (auto simp: u)
  next
    case (Suc j)
    then have j: "j < length vals - (i + 1)" using "1.prems" by simp
    obtain s where "pie_slices vals tot (i + 1) (endAngle (pie_slice vals tot i start)) ! j =
        pie_slice vals tot (i + 1 + j) s"
      using "1.IH" [OF i refl j] by blast
    then show ?thesis using Suc by (auto simp: u)
  qed
qed

lemma pie_slices_start:
  "k < length values - i \<Longrightarrow>
   startAngle (pie_slices values tot i start ! k) =
     (if k = 0 then start else endAngle (pie_slices values tot i start ! (k - 1)))"
proof (induction "values" tot i start arbitrary: k rule: pie_slices.induct)
  case (1 vals tot i start)
  then have i: "i < length vals" by simp
  note u = pie_slices_unfold [OF i, of tot start]
  show ?case
  proof (cases k)
    case 0
    then show ?thesis by (simp add: u startAngle_pie_slice)
  next
    case (Suc j)
    then have j: "j < length vals - (i + 1)" using "1.prems" by simp
    have ih: "startAngle (pie_slices vals tot (i + 1) (endAngle (pie_slice vals tot i start)) ! j) =
        (if j = 0 then endAngle (pie_slice vals tot i start)
         else endAngle (pie_slices vals tot (i + 1) (endAngle (pie_slice vals tot i start)) ! (j - 1)))"
      using "1.IH" [OF i refl j] .
    show ?thesis
    proof (cases j)
      case 0
      then show ?thesis using ih Suc by (simp add: u)
    next
      case (Suc m)
      then show ?thesis using ih \<open>k = Suc j\<close> by (simp add: u)
    qed
  qed
qed

lemma pie_slices_props:
  assumes "k < length values"
  shows "angle (pie_slices values tot 0 start ! k) = dmul (ddiv (values ! k) tot) (of_int_d 360)"
    and "endAngle (pie_slices values tot 0 start ! k) =
           dadd (startAngle (pie_slices values tot 0 start ! k))
             (angle (pie_slices values tot 0 start ! k))"
    and "arc_flags (path (pie_slices values tot 0 start ! k)) =
           [(if dgreater (angle (pie_slices values tot 0 start ! k)) (of_int_d 180) then 1 else 0, 1)]"
proof -
  obtain s where s: "pie_slices values tot 0 start ! k = pie_slice values tot k s"
    using pie_slices_nth [of k "values" 0 tot start] assms by auto
  show "angle (pie_slices values tot 0 start ! k) = dmul (ddiv (values ! k) tot) (of_int_d 360)"
    by (simp add: s angle_pie_slice)
  show "endAngle (pie_slices values tot 0 start ! k) =
           dadd (startAngle (pie_slices values tot 0 start ! k))
             (angle (pie_slices values tot 0 start ! k))"
    by (simp add: s endAngle_pie_slice startAngle_pie_slice)
  show "arc_flags (path (pie_slices values tot 0 start ! k)) =
           [(if dgreater (angle (pie_slices values tot 0 start ! k)) (of_int_d 180) then 1 else 0, 1)]"
    by (simp only: s path_pie_slice)
qed



lemma foldl_dadd_Finite:
  "foldl dadd (Finite a) (map Finite xs) = Finite (a + sum_list xs)"
  by (induction xs arbitrary: a) (simp_all add: add.assoc)

lemma sum_list_scaled:
  "sum_list (map (\<lambda>v. v / t * c) xs) = sum_list xs / t * (c::real)"
  by (induction xs) (simp_all add: add_divide_distrib distrib_right)

lemma pie_total_Finite: "pie_total (map Finite vs) = Finite (sum_list vs)"
  by (simp add: pie_total_def of_int_d_def foldl_dadd_Finite)

lemma pie_angles_Finite:
  assumes "t \<noteq> 0"
  shows "map angle (pie_slices (map Finite vs) (Finite t) 0 start) =
           map (\<lambda>v. Finite (v / t * 360)) vs"
proof (rule nth_equalityI)
  show "length (map angle (pie_slices (map Finite vs) (Finite t) 0 start)) =
          length (map (\<lambda>v. Finite (v / t * 360)) vs)"
    by (simp add: length_pie_slices)
next
  fix k
  assume "k < length (map angle (pie_slices (map Finite vs) (Finite t) 0 start))"
  then have k: "k < length (map Finite vs)" by (simp add: length_pie_slices)
  then show "map angle (pie_slices (map Finite vs) (Finite t) 0 start) ! k =
          map (\<lambda>v. Finite (v / t * 360)) vs ! k"
    using pie_slices_props(1) [OF k, of "Finite t" start] assms
    by (simp add: length_pie_slices of_int_d_def)
qed

lemma pie_end_chain:
  assumes "t \<noteq> 0" "k < length vs"
  shows "endAngle (pie_slices (map Finite vs) (Finite t) 0 (Finite s) ! k) =
           Finite (s + sum_list (map (\<lambda>v. v / t * 360) (take (Suc k) vs)))"
  using assms(2)
proof (induction k)
  case 0
  have k: "0 < length (map Finite vs)" using 0 by simp
  have a: "angle (pie_slices (map Finite vs) (Finite t) 0 (Finite s) ! 0) = Finite (vs ! 0 / t * 360)"
    using pie_slices_props(1) [OF k, of "Finite t" "Finite s"] assms(1) 0
    by (simp add: of_int_d_def)
  have st: "startAngle (pie_slices (map Finite vs) (Finite t) 0 (Finite s) ! 0) = Finite s"
    using pie_slices_start [of 0 "map Finite vs" 0 "Finite t" "Finite s"] 0 by simp
  show ?case
    using pie_slices_props(2) [OF k, of "Finite t" "Finite s"] 0
    by (simp add: a st take_Suc_conv_app_nth)
next
  case (Suc k)
  then have kl: "k < length vs" by simp
  have k: "Suc k < length (map Finite vs)" using Suc.prems by simp
  have a: "angle (pie_slices (map Finite vs) (Finite t) 0 (Finite s) ! Suc k) =
             Finite (vs ! Suc k / t * 360)"
    using pie_slices_props(1) [OF k, of "Finite t" "Finite s"] assms(1) Suc.prems
    by (simp add: of_int_d_def)
  have st: "startAngle (pie_slices (map Finite vs) (Finite t) 0 (Finite s) ! Suc k) =
              Finite (s + sum_list (map (\<lambda>v. v / t * 360) (take (Suc k) vs)))"
    using pie_slices_start [of "Suc k" "map Finite vs" 0 "Finite t" "Finite s"] Suc.prems
      Suc.IH [OF kl]
    by simp
  show ?case
    using pie_slices_props(2) [OF k, of "Finite t" "Finite s"]
    by (simp add: a st take_Suc_conv_app_nth [OF Suc.prems] add.assoc)
qed

text \<open>
  C9, as the code has it. For every non-empty list of positive finite values, in exact
  arithmetic, the sweeps of the slices sum to 360 degrees, and the last slice ends at
  -90 + 360 degrees. An infinite value, which \<^verbatim>\<open>std::stod\<close> reads from \<^verbatim>\<open>inf\<close>, is
  positive too, but makes the quotient \<open>value / total\<close> not-a-number.
\<close>

theorem pie_sweeps_sum_360:
  assumes "values = map Finite vs" "vs \<noteq> []" "\<forall>v \<in> set vs. 0 < v"
  shows "foldl dadd (of_int_d 0)
           (map angle (pie_slices values (pie_total values) 0 (of_int_d (- 90)))) = Finite 360 \<and>
         endAngle (last (pie_slices values (pie_total values) 0 (of_int_d (- 90)))) =
           Finite (- 90 + 360)"
proof -
  let ?t = "sum_list vs"
  have pos: "0 < ?t"
    using assms(2,3) by (induction vs) (auto intro: add_pos_nonneg sum_list_nonneg less_imp_le)
  then have t: "?t \<noteq> 0" by simp
  have tot: "pie_total (map Finite vs) = Finite ?t"
    by (simp add: pie_total_Finite)
  let ?sls = "pie_slices (map Finite vs) (Finite ?t) 0 (Finite (- 90))"
  have sum: "sum_list (map (\<lambda>v. v / ?t * 360) vs) = 360"
    unfolding sum_list_scaled using t by simp
  have m: "map (\<lambda>v. Finite (v / ?t * 360)) vs = map Finite (map (\<lambda>v. v / ?t * 360) vs)"
    by simp
  have s1: "foldl dadd (Finite 0) (map angle ?sls) = Finite 360"
    unfolding pie_angles_Finite [OF t] m foldl_dadd_Finite sum by simp
  have ne: "?sls \<noteq> []"
    using assms(2) length_pie_slices [of "map Finite vs" "Finite ?t" 0 "Finite (- 90)"] by auto
  have k: "length vs - 1 < length vs" using assms(2) by (cases vs) simp_all
  have "last ?sls = ?sls ! (length vs - 1)"
    using last_conv_nth [OF ne] by (simp add: length_pie_slices)
  then have s2: "endAngle (last ?sls) = Finite (- 90 + 360)"
    using pie_end_chain [OF t k, of "- 90"] assms(2) sum by (cases vs) simp_all
  show ?thesis
    using s1 s2 by (simp add: assms(1) tot of_int_d_def)
qed

lemma parse_123: "parseCSV ''1,2,3'' = map Finite [1, 2, 3]"
  by (simp add: parseCSV_eq parseValues_def convert_def stod_eval)

theorem pie_sweeps_sum_360_witness:
  "parseCSV ''1,2,3'' = map Finite [1, 2, 3] \<and> [1, 2, 3 :: real] \<noteq> [] \<and>
   (0 :: real) < 1 \<and> (0 :: real) < 2 \<and> (0 :: real) < 3 \<and>
   foldl dadd (of_int_d 0)
     (map angle (pie_slices (parseCSV ''1,2,3'') (pie_total (parseCSV ''1,2,3'')) 0
                   (of_int_d (- 90)))) = Finite 360 \<and>
   endAngle (last (pie_slices (parseCSV ''1,2,3'') (pie_total (parseCSV ''1,2,3'')) 0
                     (of_int_d (- 90)))) = Finite 270"
proof -
  have ne: "[1, 2, 3 :: real] \<noteq> []" by simp
  have pos: "\<forall>v \<in> set [1, 2, 3 :: real]. 0 < v" by simp
  show ?thesis
    using pie_sweeps_sum_360 [OF parse_123 ne pos] parse_123 by simp
qed

lemma parse_inf_value: "parseCSV ''inf'' = [PInf]"
  by (simp add: parseCSV_eq parseValues_def convert_def stod_eval)

theorem pie_infinite_value_counterexample:
  "parseCSV ''inf'' = [PInf] \<and> dgreater PInf (of_int_d 0) \<and>
   foldl dadd (of_int_d 0)
     (map angle (pie_slices (parseCSV ''inf'') (pie_total (parseCSV ''inf'')) 0
                   (of_int_d (- 90)))) = NaN \<and>
   endAngle (last (pie_slices (parseCSV ''inf'') (pie_total (parseCSV ''inf'')) 0
                     (of_int_d (- 90)))) = NaN"
proof -
  have t: "pie_total [PInf] = PInf" by (simp add: pie_total_def of_int_d_def)
  have sls: "pie_slices [PInf] PInf 0 (of_int_d (- 90)) = [pie_slice [PInf] PInf 0 (of_int_d (- 90))]"
    by (simp add: pie_slices_unfold) (simp add: pie_slices.simps)
  have a: "angle (pie_slice [PInf] PInf 0 (of_int_d (- 90))) = NaN"
    by (simp add: angle_pie_slice)
  have e: "endAngle (pie_slice [PInf] PInf 0 (of_int_d (- 90))) = NaN"
    by (simp add: endAngle_pie_slice a) (simp add: of_int_d_def)
  show ?thesis
    by (simp add: parse_inf_value t sls a e) (simp add: of_int_d_def dgreater_def)
qed

end
